theory Spec2Isabelle
  imports Complex_Main
begin

section \<open>Data model\<close>

text \<open>
  The repository under \<^verbatim>\<open>src/\<close> is the browser front end of the 2D-to-3D converter:
  the page component \<^verbatim>\<open>Home\<close> (\<^verbatim>\<open>app/page.tsx\<close>), the chat panel
  (\<^verbatim>\<open>components/ChatPanel.tsx\<close>) and the 3D viewer (\<^verbatim>\<open>components/ModelViewer.tsx\<close>).
  Strings are lists of characters. A React state variable is a field of a record; an
  event handler takes the record and returns the updated one together with the list of
  effects it had on the outside world, in order. What the network answers is an input
  of the model.
\<close>

subsection \<open>Files, JSON, requests and responses\<close>

text \<open>The three properties of a browser \<^verbatim>\<open>File\<close> that the page reads.\<close>

record File =
  File_name :: string
  File_type :: string
  File_size :: nat

text \<open>
  A JavaScript value about to be serialised. \<^verbatim>\<open>JSON.stringify\<close> leaves out every
  property of an object whose value is \<^verbatim>\<open>undefined\<close>; the bodies built in this
  repository are flat objects, so only the top level is filtered.
\<close>

datatype json = JUndefined | JString string | JArray "json list" | JObject "(string \<times> json) list"

definition JSON_stringify :: "(string \<times> json) list \<Rightarrow> json" where
  "JSON_stringify props = JObject (filter (\<lambda>kv. snd kv \<noteq> JUndefined) props)"

definition optional :: "string option \<Rightarrow> json" where
  "optional v = (case v of None \<Rightarrow> JUndefined | Some s \<Rightarrow> JString s)"


fun get :: "json \<Rightarrow> string \<Rightarrow> json" where
  "get (JObject props) k = (case map_of props k of None \<Rightarrow> JUndefined | Some v \<Rightarrow> v)"
| "get _ k = JUndefined"

datatype body = FormData "(string \<times> File) list" | Json json

record request =
  url :: string
  http_method :: string
  headers :: "(string \<times> string) list"
  body :: body

text \<open>
  What a handler does to the outside world: \<^verbatim>\<open>fetch\<close>, \<^verbatim>\<open>console.error\<close> (the label
  only), \<^verbatim>\<open>alert\<close>, and a click on a temporary download link (what is
  downloaded, under which file name).
\<close>

datatype effect =
  Fetch request
| ConsoleError string
| Alert string
| Download string string

text \<open>
  The outcome of one awaited \<^verbatim>\<open>fetch\<close>: the promise rejects (\<open>Rejected\<close>), or it
  resolves to a response with the flag \<^verbatim>\<open>response.ok\<close> and a body. The body is
  \<open>None\<close> when reading it (\<^verbatim>\<open>response.json()\<close>, \<^verbatim>\<open>response.blob()\<close>) rejects. A body
  that parses is taken to have the shape its reader gives it in the source.
\<close>

datatype 'a response = Rejected | Response bool "'a option"

definition startsWith :: "string \<Rightarrow> string \<Rightarrow> bool" where
  "startsWith s p = (take (length p) s = p)"

text \<open>
  \<^verbatim>\<open>name.replace(/\.[^/.]+$/, '')\<close>: the pattern matches a dot followed by one or more
  characters other than \<^verbatim>\<open>/\<close> and \<^verbatim>\<open>.\<close> up to the end of the string. Such a match
  can only start at the last dot, so the function looks at the string from its end.
\<close>

definition removeExtension :: "string \<Rightarrow> string" where
  "removeExtension s =
     (let r = rev s;
          ext = takeWhile (\<lambda>c. c \<noteq> CHR ''.'' \<and> c \<noteq> CHR ''/'') r;
          rest = dropWhile (\<lambda>c. c \<noteq> CHR ''.'' \<and> c \<noteq> CHR ''/'') r
      in (case rest of
            [] \<Rightarrow> s
          | c # front \<Rightarrow> if c = CHR ''.'' \<and> ext \<noteq> [] then rev front else s))"

subsection \<open>The page component: state\<close>

record ConvertedModel =
  model_url :: string
  depth_map_url :: string
  point_cloud_url :: "string option"
  format :: string
  original_image_path :: "string option"
  unique_name :: "string option"

datatype ViewMode = Model3d | Textured | PointCloudMode

record ImageMetadata =
  uniqueName :: "string option"
  originalImagePath :: "string option"

record Home =
  uploadedImage :: "File option"
  imagePreviewUrl :: string
  imageName :: string
  generatedModel :: "ConvertedModel option"
  summary :: string
  isGeneratingSummary :: bool
  isGeneratingModel :: bool
  viewMode :: ViewMode
  dragActive :: bool
  uploadProgress :: nat
  error :: string
  imageMetadata :: ImageMetadata

definition Home_initial :: Home where
  "Home_initial =
     \<lparr>uploadedImage = None, imagePreviewUrl = [], imageName = [], generatedModel = None,
      summary = [], isGeneratingSummary = False, isGeneratingModel = False,
      viewMode = Model3d, dragActive = False, uploadProgress = 0, error = [],
      imageMetadata = \<lparr>uniqueName = None, originalImagePath = None\<rparr>\<rparr>"

section \<open>The page component: upload and summary\<close>

subsection \<open>generateSummary\<close>

definition summary_request :: "string \<Rightarrow> request" where
  "summary_request fileName =
     \<lparr>url = ''http://localhost:8000/api/generate-summary'', http_method = ''POST'',
      headers = [(''Content-Type'', ''application/json'')],
      body = Json (JSON_stringify
               [(''image_name'', JString (removeExtension fileName)),
                (''image_type'', JString ''general'')])\<rparr>"

definition generateSummary_start :: "string \<Rightarrow> Home \<Rightarrow> Home \<times> effect list" where
  "generateSummary_start fileName s =
     (s\<lparr>isGeneratingSummary := True\<rparr>, [Fetch (summary_request fileName)])"

text \<open>
  The rest of \<^verbatim>\<open>generateSummary\<close>, from the moment its \<^verbatim>\<open>fetch\<close> settles: the body
  of an ok response is the object whose \<^verbatim>\<open>summary\<close> property is stored; every failure
  is caught inside the function, which therefore never throws.
\<close>

definition generateSummary_settle :: "string response \<Rightarrow> Home \<Rightarrow> Home \<times> effect list" where
  "generateSummary_settle r s =
     (case r of
        Response True (Some text) \<Rightarrow>
          (s\<lparr>summary := text, isGeneratingSummary := False\<rparr>, [])
      | _ \<Rightarrow>
          (s\<lparr>summary := ''Unable to generate summary at this time. You can still use the chat to ask questions!'',
             isGeneratingSummary := False\<rparr>,
           [ConsoleError ''Error generating summary:'']))"

definition generateSummary :: "string \<Rightarrow> string response \<Rightarrow> Home \<Rightarrow> Home \<times> effect list" where
  "generateSummary fileName r s =
     (let (s1, fx1) = generateSummary_start fileName s;
          (s2, fx2) = generateSummary_settle r s1
      in (s2, fx1 @ fx2))"

subsection \<open>handleImageUpload\<close>

definition convert_request :: "File \<Rightarrow> request" where
  "convert_request file =
     \<lparr>url = ''http://localhost:8000/api/convert'', http_method = ''POST'', headers = [],
      body = FormData [(''file'', file)]\<rparr>"

text \<open>The two validations at the head of the handler, in the order of the source.\<close>

definition validation_error :: "File \<Rightarrow> string option" where
  "validation_error file =
     (if \<not> startsWith (File_type file) ''image/'' then Some ''Please upload a valid image file''
      else if File_size file > 10 * 1024 * 1024 then Some ''File size must be less than 10MB''
      else None)"

text \<open>
  The handler up to its \<^verbatim>\<open>await fetch\<close>. \<open>previewUrl\<close> is what
  \<^verbatim>\<open>URL.createObjectURL(file)\<close> returned.
\<close>

definition handleImageUpload_start :: "File \<Rightarrow> string \<Rightarrow> Home \<Rightarrow> Home \<times> effect list" where
  "handleImageUpload_start file previewUrl s =
     (case validation_error file of
        Some msg \<Rightarrow> (s\<lparr>error := msg\<rparr>, [])
      | None \<Rightarrow>
          (s\<lparr>error := [], uploadedImage := Some file,
             imageName := removeExtension (File_name file),
             imagePreviewUrl := previewUrl,
             isGeneratingModel := True, uploadProgress := 0\<rparr>,
           [Fetch (convert_request file)]))"

text \<open>The updater that the 200 ms interval passes to \<^verbatim>\<open>setUploadProgress\<close>.\<close>

definition progress_tick :: "nat \<Rightarrow> nat" where
  "progress_tick prev = (if prev \<ge> 90 then 90 else prev + 10)"

definition tick :: "Home \<Rightarrow> Home" where
  "tick s = s\<lparr>uploadProgress := progress_tick (uploadProgress s)\<rparr>"

definition handleImageUpload_catch :: "Home \<Rightarrow> Home \<times> effect list" where
  "handleImageUpload_catch s =
     (s\<lparr>error := ''Failed to generate 3D model. Please try again.'', generatedModel := None\<rparr>,
      [ConsoleError ''Error generating 3D model:''])"

definition handleImageUpload_finally :: "Home \<Rightarrow> Home" where
  "handleImageUpload_finally s = s\<lparr>isGeneratingModel := False, uploadProgress := 0\<rparr>"

definition handleImageUpload_fail :: "Home \<Rightarrow> Home \<times> effect list" where
  "handleImageUpload_fail s =
     (let (s1, fx) = handleImageUpload_catch s in (handleImageUpload_finally s1, fx))"

text \<open>
  The \<^verbatim>\<open>fetch\<close> of the convert call settles: \<open>None\<close> is a rejected promise (the
  statements after the \<^verbatim>\<open>await\<close> are skipped), \<open>Some ok\<close> a response. The flag in
  the result says whether the handler goes on to read the body.
\<close>

definition handleImageUpload_response :: "bool option \<Rightarrow> Home \<Rightarrow> (Home \<times> effect list) \<times> bool" where
  "handleImageUpload_response r s =
     (case r of
        None \<Rightarrow> (handleImageUpload_fail s, False)
      | Some ok \<Rightarrow>
          (let s1 = s\<lparr>uploadProgress := 100\<rparr>
           in if \<not> ok then (handleImageUpload_fail s1, False) else ((s1, []), True)))"

text \<open>
  \<^verbatim>\<open>response.json()\<close> settles: \<open>None\<close> when it rejects, otherwise the parsed record,
  which is stored; then \<^verbatim>\<open>generateSummary(file.name)\<close> starts.
\<close>

definition handleImageUpload_json :: "File \<Rightarrow> ConvertedModel option \<Rightarrow> Home \<Rightarrow> (Home \<times> effect list) \<times> bool" where
  "handleImageUpload_json file d s =
     (case d of
        None \<Rightarrow> (handleImageUpload_fail s, False)
      | Some data \<Rightarrow>
          (generateSummary_start (File_name file) (s\<lparr>generatedModel := Some data\<rparr>), True))"

text \<open>\<^verbatim>\<open>generateSummary\<close> returns to the handler, whose \<^verbatim>\<open>finally\<close> block runs.\<close>

definition handleImageUpload_summary :: "string response \<Rightarrow> Home \<Rightarrow> Home \<times> effect list" where
  "handleImageUpload_summary r s =
     (let (s1, fx) = generateSummary_settle r s in (handleImageUpload_finally s1, fx))"

text \<open>
  One whole run of the handler with nothing else happening in between. The environment
  says what \<^verbatim>\<open>createObjectURL\<close> returned, how often the interval fired before the
  convert call settled, and what the two calls answered.
\<close>

record upload_env =
  env_previewUrl :: string
  env_ticks :: nat
  env_convert :: "ConvertedModel response"
  env_summary :: "string response"

definition response_flag :: "'a response \<Rightarrow> bool option" where
  "response_flag r = (case r of Rejected \<Rightarrow> None | Response ok b \<Rightarrow> Some ok)"

definition response_body :: "'a response \<Rightarrow> 'a option" where
  "response_body r = (case r of Rejected \<Rightarrow> None | Response ok b \<Rightarrow> b)"

definition handleImageUpload :: "File \<Rightarrow> upload_env \<Rightarrow> Home \<Rightarrow> Home \<times> effect list" where
  "handleImageUpload file env s =
     (let (s1, fx1) = handleImageUpload_start file (env_previewUrl env) s
      in if validation_error file \<noteq> None then (s1, fx1)
         else
           let s2 = (tick ^^ env_ticks env) s1;
               ((s3, fx3), reading) = handleImageUpload_response (response_flag (env_convert env)) s2
           in if \<not> reading then (s3, fx1 @ fx3)
              else
                let ((s4, fx4), summarising) =
                      handleImageUpload_json file (response_body (env_convert env)) s3
                in if \<not> summarising then (s4, fx1 @ fx3 @ fx4)
                   else
                     let (s5, fx5) = handleImageUpload_summary (env_summary env) s4
                     in (s5, fx1 @ fx3 @ fx4 @ fx5))"

subsection \<open>The other handlers of the page\<close>

definition handleDownloadModel :: "Home \<Rightarrow> effect list" where
  "handleDownloadModel s =
     (case generatedModel s of
        None \<Rightarrow> []
      | Some m \<Rightarrow> [Download (model_url m) (imageName s @ ''_3d_model.'' @ format m)])"

definition handleReset :: "Home \<Rightarrow> Home" where
  "handleReset s =
     s\<lparr>uploadedImage := None, imagePreviewUrl := [], imageName := [], generatedModel := None,
       summary := [], error := [], viewMode := Model3d\<rparr>"

section \<open>The chat panel\<close>

datatype Role = User | Assistant

record Message =
  role :: Role
  content :: string

record ChatPanelProps =
  prop_imageName :: string
  prop_summary :: string
  prop_isGeneratingSummary :: bool
  prop_imageMetadata :: "ImageMetadata option"

record ChatPanel =
  messages :: "Message list"
  inputMessage :: string
  isLoading :: bool
  isExporting :: bool

definition ChatPanel_initial :: ChatPanel where
  "ChatPanel_initial = \<lparr>messages = [], inputMessage = [], isLoading = False, isExporting = False\<rparr>"

text \<open>
  The white space of \<^verbatim>\<open>String.prototype.trim\<close> and of the pattern \<^verbatim>\<open>\s\<close>, as far as
  it lies in ASCII: tab, line feed, vertical tab, form feed, carriage return, space.
\<close>

definition isWhiteSpace :: "char \<Rightarrow> bool" where
  "isWhiteSpace c = (c \<in> set [CHR 0x09, CHR 0x0A, CHR 0x0B, CHR 0x0C, CHR 0x0D, CHR 0x20])"

definition trim :: "string \<Rightarrow> string" where
  "trim s = rev (dropWhile isWhiteSpace (rev (dropWhile isWhiteSpace s)))"

text \<open>\<^verbatim>\<open>s.replace(/\s+/g, '_')\<close>: every maximal run of white space becomes one underscore.\<close>

function replaceWhitespace :: "string \<Rightarrow> string" where
  "replaceWhitespace [] = []"
| "replaceWhitespace (c # cs) =
     (if isWhiteSpace c then CHR ''_'' # replaceWhitespace (dropWhile isWhiteSpace cs)
      else c # replaceWhitespace cs)"
  by pat_completeness auto
termination
  by (relation "measure length") (auto simp: le_imp_less_Suc length_dropWhile_le)

definition message_json :: "Message \<Rightarrow> json" where
  "message_json m =
     JObject [(''role'', JString (case role m of User \<Rightarrow> ''user'' | Assistant \<Rightarrow> ''assistant'')),
              (''content'', JString (content m))]"

subsection \<open>handleSendMessage\<close>

text \<open>The two properties of the chat answer that the handler reads.\<close>

record ChatData =
  response :: string
  detail :: "string option"

definition chat_request :: "string \<Rightarrow> Message list \<Rightarrow> string \<Rightarrow> request" where
  "chat_request name newMessages userMessage =
     \<lparr>url = ''http://localhost:8000/api/chat'', http_method = ''POST'',
      headers = [(''Content-Type'', ''application/json'')],
      body = Json (JSON_stringify
               [(''image_name'', JString name),
                (''conversation_history'', JArray (map message_json newMessages)),
                (''user_message'', JString userMessage)])\<rparr>"

text \<open>
  The handler up to its \<^verbatim>\<open>await fetch\<close>. The third component is \<open>None\<close> when the
  guard returned at once, and otherwise the list \<^verbatim>\<open>newMessages\<close> that the rest of the
  handler keeps in its closure.
\<close>

definition handleSendMessage_start ::
    "ChatPanelProps \<Rightarrow> ChatPanel \<Rightarrow> ChatPanel \<times> effect list \<times> Message list option" where
  "handleSendMessage_start p c =
     (if trim (inputMessage c) = [] \<or> isLoading c then (c, [], None)
      else
        let userMessage = trim (inputMessage c);
            newMessages = messages c @ [\<lparr>role = User, content = userMessage\<rparr>]
        in (c\<lparr>inputMessage := [], messages := newMessages, isLoading := True\<rparr>,
            [Fetch (chat_request (prop_imageName p) newMessages userMessage)],
            Some newMessages))"

text \<open>
  The call settles. \<^verbatim>\<open>response.json()\<close> is read before \<^verbatim>\<open>response.ok\<close> is looked
  at, and everything but an ok response with a readable body ends in the \<^verbatim>\<open>catch\<close>.
\<close>

definition handleSendMessage_settle ::
    "Message list \<Rightarrow> ChatData response \<Rightarrow> ChatPanel \<Rightarrow> ChatPanel \<times> effect list" where
  "handleSendMessage_settle newMessages r c =
     (case r of
        Response True (Some data) \<Rightarrow>
          (c\<lparr>messages := newMessages @ [\<lparr>role = Assistant, content = response data\<rparr>],
             isLoading := False\<rparr>, [])
      | _ \<Rightarrow>
          (c\<lparr>messages := newMessages @
                 [\<lparr>role = Assistant, content = ''Sorry, I encountered an error. Please try again.''\<rparr>],
             isLoading := False\<rparr>,
           [ConsoleError ''Chat error:'']))"


subsection \<open>handleExportReport\<close>

definition export_request :: "ChatPanelProps \<Rightarrow> ChatPanel \<Rightarrow> request" where
  "export_request p c =
     \<lparr>url = ''http://localhost:8000/api/export-report'', http_method = ''POST'',
      headers = [(''Content-Type'', ''application/json'')],
      body = Json (JSON_stringify
               [(''image_name'', JString (prop_imageName p)),
                (''summary'', JString (prop_summary p)),
                (''conversation_history'', JArray (map message_json (messages c))),
                (''unique_name'', optional (Option.bind (prop_imageMetadata p) uniqueName)),
                (''original_image_path'',
                   optional (Option.bind (prop_imageMetadata p) originalImagePath))])\<rparr>"

definition handleExportReport_start :: "ChatPanelProps \<Rightarrow> ChatPanel \<Rightarrow> ChatPanel \<times> effect list" where
  "handleExportReport_start p c = (c\<lparr>isExporting := True\<rparr>, [Fetch (export_request p c)])"

text \<open>
  The call settles; the body of an ok response is read as a blob (here: its bytes) and
  offered for download under a name made from the image name the handler started with.
\<close>

definition handleExportReport_settle ::
    "string \<Rightarrow> string response \<Rightarrow> ChatPanel \<Rightarrow> ChatPanel \<times> effect list" where
  "handleExportReport_settle name r c =
     (case r of
        Response True (Some blob) \<Rightarrow>
          (c\<lparr>isExporting := False\<rparr>,
           [Download blob (''learning_report_'' @ replaceWhitespace name @ ''.pdf'')])
      | _ \<Rightarrow>
          (c\<lparr>isExporting := False\<rparr>,
           [ConsoleError ''Export error:'', Alert ''Failed to export report. Please try again.'']))"


subsection \<open>What is rendered, and a panel with its requests in flight\<close>

text \<open>The \<^verbatim>\<open>disabled\<close> attributes of the text input, of the send button and of Export.\<close>

definition input_disabled :: "ChatPanelProps \<Rightarrow> ChatPanel \<Rightarrow> bool" where
  "input_disabled p c = (isLoading c \<or> prop_isGeneratingSummary p)"

definition send_disabled :: "ChatPanelProps \<Rightarrow> ChatPanel \<Rightarrow> bool" where
  "send_disabled p c = (trim (inputMessage c) = [] \<or> isLoading c \<or> prop_isGeneratingSummary p)"

definition export_disabled :: "ChatPanelProps \<Rightarrow> ChatPanel \<Rightarrow> bool" where
  "export_disabled p c = (isExporting c \<or> prop_summary p = [])"

text \<open>
  A handler that awaits a call is suspended with what its closure holds: the list
  \<^verbatim>\<open>newMessages\<close> for a chat call, the image name for an export call. A mounted panel
  is its state, its current props, the suspended handlers and the effects so far.
\<close>

datatype chat_pending = AwaitChat "Message list" | AwaitExport string

record Chat =
  panel :: ChatPanel
  props :: ChatPanelProps
  requests :: "chat_pending list"
  chat_effects :: "effect list"

definition Chat_mounted :: "ChatPanelProps \<Rightarrow> Chat" where
  "Chat_mounted p = \<lparr>panel = ChatPanel_initial, props = p, requests = [], chat_effects = []\<rparr>"

text \<open>
  What can happen to a mounted panel: the user edits the input, presses a key in it
  (the key, and whether shift is held), clicks Send or Export; a pending call settles
  (its index among the suspended handlers, and the answer); the page renders the panel
  again with new props. An event on a disabled control does nothing.
\<close>

datatype chat_event =
  ChangeInput string
| KeyPress string bool
| ClickSend
| ClickExport
| ChatSettles nat "ChatData response"
| ExportSettles nat "string response"
| Render ChatPanelProps

definition remove_nth :: "nat \<Rightarrow> 'a list \<Rightarrow> 'a list" where
  "remove_nth i xs = take i xs @ drop (Suc i) xs"

definition send :: "Chat \<Rightarrow> Chat" where
  "send C =
     (case handleSendMessage_start (props C) (panel C) of
        (c, fx, snapshot) \<Rightarrow>
          C\<lparr>panel := c, chat_effects := chat_effects C @ fx,
            requests := (case snapshot of None \<Rightarrow> requests C
                         | Some newMessages \<Rightarrow> requests C @ [AwaitChat newMessages])\<rparr>)"

fun chat_step :: "Chat \<Rightarrow> chat_event \<Rightarrow> Chat" where
  "chat_step C (ChangeInput v) =
     (if input_disabled (props C) (panel C) then C
      else C\<lparr>panel := (panel C)\<lparr>inputMessage := v\<rparr>\<rparr>)"
| "chat_step C (KeyPress key shiftKey) =
     (if input_disabled (props C) (panel C) then C
      else if key = ''Enter'' \<and> \<not> shiftKey then send C else C)"
| "chat_step C ClickSend =
     (if send_disabled (props C) (panel C) then C else send C)"
| "chat_step C ClickExport =
     (if export_disabled (props C) (panel C) then C
      else
        let (c, fx) = handleExportReport_start (props C) (panel C)
        in C\<lparr>panel := c, chat_effects := chat_effects C @ fx,
             requests := requests C @ [AwaitExport (prop_imageName (props C))]\<rparr>)"
| "chat_step C (ChatSettles i r) =
     (if i < length (requests C) then
        (case requests C ! i of
           AwaitChat newMessages \<Rightarrow>
             (let (c, fx) = handleSendMessage_settle newMessages r (panel C)
              in C\<lparr>panel := c, chat_effects := chat_effects C @ fx,
                   requests := remove_nth i (requests C)\<rparr>)
         | AwaitExport name \<Rightarrow> C)
      else C)"
| "chat_step C (ExportSettles i r) =
     (if i < length (requests C) then
        (case requests C ! i of
           AwaitExport name \<Rightarrow>
             (let (c, fx) = handleExportReport_settle name r (panel C)
              in C\<lparr>panel := c, chat_effects := chat_effects C @ fx,
                   requests := remove_nth i (requests C)\<rparr>)
         | AwaitChat newMessages \<Rightarrow> C)
      else C)"
| "chat_step C (Render p) = C\<lparr>props := p\<rparr>"

definition chat_run :: "Chat \<Rightarrow> chat_event list \<Rightarrow> Chat" where
  "chat_run = foldl chat_step"

fun is_export :: "chat_pending \<Rightarrow> bool" where
  "is_export (AwaitExport name) = True"
| "is_export (AwaitChat newMessages) = False"

definition exports_in_flight :: "Chat \<Rightarrow> nat" where
  "exports_in_flight C = length (filter is_export (requests C))"

definition chats_in_flight :: "Chat \<Rightarrow> nat" where
  "chats_in_flight C = length (filter (\<lambda>q. \<not> is_export q) (requests C))"

text \<open>The summaries carried by the export requests among a list of effects.\<close>

fun exported_summaries :: "effect list \<Rightarrow> json list" where
  "exported_summaries [] = []"
| "exported_summaries (Fetch r # fx) =
     (if url r = ''http://localhost:8000/api/export-report''
      then (case body r of Json j \<Rightarrow> get j ''summary'' | FormData parts \<Rightarrow> JUndefined)
             # exported_summaries fx
      else exported_summaries fx)"
| "exported_summaries (e # fx) = exported_summaries fx"

text \<open>
  What holds of a mounted panel at every moment: the flag \<^verbatim>\<open>isExporting\<close> counts the
  export calls in flight and \<^verbatim>\<open>isLoading\<close> the chat calls; a suspended chat handler
  holds the transcript as it is now; every export request so far carried a summary
  that is a non-empty string.
\<close>

definition chat_inv :: "Chat \<Rightarrow> bool" where
  "chat_inv C \<longleftrightarrow>
     exports_in_flight C = (if isExporting (panel C) then 1 else 0) \<and>
     chats_in_flight C = (if isLoading (panel C) then 1 else 0) \<and>
     (\<forall>ms. AwaitChat ms \<in> set (requests C) \<longrightarrow> ms = messages (panel C)) \<and>
     (\<forall>j \<in> set (exported_summaries (chat_effects C)). \<exists>t. j = JString t \<and> t \<noteq> [])"

section \<open>The page with its requests in flight\<close>

text \<open>
  A run of \<^verbatim>\<open>handleImageUpload\<close> is suspended at one of three places: at the convert
  call (with the file and the interval it started), at \<^verbatim>\<open>response.json()\<close>, or inside
  \<^verbatim>\<open>generateSummary\<close>. The page is its state, the suspended runs, the intervals that
  are still set, how many intervals were ever made, and the effects so far.
\<close>

datatype upload_pending = AwaitConvert File nat | AwaitConvertJson File | AwaitSummary

record Page =
  home :: Home
  uploads :: "upload_pending list"
  intervals :: "nat list"
  intervalsMade :: nat
  effects :: "effect list"

definition Page_initial :: Page where
  "Page_initial = \<lparr>home = Home_initial, uploads = [], intervals = [], intervalsMade = 0, effects = []\<rparr>"

text \<open>
  Events of the page. A drop and a choice in the file dialog carry the files and what
  \<^verbatim>\<open>createObjectURL\<close> will return. The drop zone is rendered while there is no
  generated model; the file input only while, in addition, no model is being
  generated; the Upload New button, the view mode buttons and Download only while
  there is a generated model.
\<close>

datatype page_event =
  DragEnter
| DragOver
| DragLeave
| Drop "File list" string
| ChooseFile "File list" string
| IntervalFires nat
| ConvertResponds nat "bool option"
| ConvertBody nat "ConvertedModel option"
| SummaryResponds nat "string response"
| ClickUploadNew
| ClickViewMode ViewMode
| ClickDownload

definition start_upload :: "File \<Rightarrow> string \<Rightarrow> Page \<Rightarrow> Page" where
  "start_upload file previewUrl P =
     (let (h, fx) = handleImageUpload_start file previewUrl (home P)
      in if validation_error file \<noteq> None
         then P\<lparr>home := h, effects := effects P @ fx\<rparr>
         else P\<lparr>home := h, effects := effects P @ fx,
                uploads := uploads P @ [AwaitConvert file (intervalsMade P)],
                intervals := intervals P @ [intervalsMade P],
                intervalsMade := Suc (intervalsMade P)\<rparr>)"

fun page_step :: "Page \<Rightarrow> page_event \<Rightarrow> Page" where
  "page_step P DragEnter =
     (if generatedModel (home P) \<noteq> None then P else P\<lparr>home := (home P)\<lparr>dragActive := True\<rparr>\<rparr>)"
| "page_step P DragOver =
     (if generatedModel (home P) \<noteq> None then P else P\<lparr>home := (home P)\<lparr>dragActive := True\<rparr>\<rparr>)"
| "page_step P DragLeave =
     (if generatedModel (home P) \<noteq> None then P else P\<lparr>home := (home P)\<lparr>dragActive := False\<rparr>\<rparr>)"
| "page_step P (Drop files previewUrl) =
     (if generatedModel (home P) \<noteq> None then P
      else
        let P1 = P\<lparr>home := (home P)\<lparr>dragActive := False\<rparr>\<rparr>
        in (case files of [] \<Rightarrow> P1 | file # others \<Rightarrow> start_upload file previewUrl P1))"
| "page_step P (ChooseFile files previewUrl) =
     (if generatedModel (home P) \<noteq> None \<or> isGeneratingModel (home P) then P
      else (case files of [] \<Rightarrow> P | file # others \<Rightarrow> start_upload file previewUrl P))"
| "page_step P (IntervalFires k) =
     (if k \<notin> set (intervals P) then P
      else P\<lparr>home := tick (home P),
             intervals := (if uploadProgress (home P) \<ge> 90 then removeAll k (intervals P)
                           else intervals P)\<rparr>)"
| "page_step P (ConvertResponds i r) =
     (if i < length (uploads P) then
        (case uploads P ! i of
           AwaitConvert file k \<Rightarrow>
             (let ((h, fx), reading) = handleImageUpload_response r (home P)
              in P\<lparr>home := h, effects := effects P @ fx,
                   intervals := (case r of None \<Rightarrow> intervals P
                                 | Some ok \<Rightarrow> removeAll k (intervals P)),
                   uploads := (if reading then (uploads P)[i := AwaitConvertJson file]
                               else remove_nth i (uploads P))\<rparr>)
         | _ \<Rightarrow> P)
      else P)"
| "page_step P (ConvertBody i d) =
     (if i < length (uploads P) then
        (case uploads P ! i of
           AwaitConvertJson file \<Rightarrow>
             (let ((h, fx), summarising) = handleImageUpload_json file d (home P)
              in P\<lparr>home := h, effects := effects P @ fx,
                   uploads := (if summarising then (uploads P)[i := AwaitSummary]
                               else remove_nth i (uploads P))\<rparr>)
         | _ \<Rightarrow> P)
      else P)"
| "page_step P (SummaryResponds i r) =
     (if i < length (uploads P) then
        (case uploads P ! i of
           AwaitSummary \<Rightarrow>
             (let (h, fx) = handleImageUpload_summary r (home P)
              in P\<lparr>home := h, effects := effects P @ fx,
                   uploads := remove_nth i (uploads P)\<rparr>)
         | _ \<Rightarrow> P)
      else P)"
| "page_step P ClickUploadNew =
     (if generatedModel (home P) = None then P else P\<lparr>home := handleReset (home P)\<rparr>)"
| "page_step P (ClickViewMode m) =
     (if generatedModel (home P) = None then P else P\<lparr>home := (home P)\<lparr>viewMode := m\<rparr>\<rparr>)"
| "page_step P ClickDownload =
     (if generatedModel (home P) = None then P
      else P\<lparr>effects := effects P @ handleDownloadModel (home P)\<rparr>)"

definition page_run :: "Page \<Rightarrow> page_event list \<Rightarrow> Page" where
  "page_run = foldl page_step"

text \<open>A suspended run whose convert call has been answered.\<close>

fun answered :: "upload_pending \<Rightarrow> bool" where
  "answered (AwaitConvert file k) = False"
| "answered (AwaitConvertJson file) = True"
| "answered AwaitSummary = True"

definition converts_in_flight :: "Page \<Rightarrow> nat" where
  "converts_in_flight P = length (filter (\<lambda>q. \<not> answered q) (uploads P))"


section \<open>The 3D viewer\<close>

record ModelViewerProps =
  modelUrl :: string
  depthMapUrl :: string
  pointCloudUrl :: "string option"
  viewer_viewMode :: ViewMode
  viewer_imageName :: string






text \<open>How the page fills the props of the viewer from its state.\<close>

definition viewer_props :: "Home \<Rightarrow> ConvertedModel \<Rightarrow> ModelViewerProps" where
  "viewer_props s m =
     \<lparr>modelUrl = model_url m, depthMapUrl = depth_map_url m, pointCloudUrl = point_cloud_url m,
      viewer_viewMode = viewMode s, viewer_imageName = imageName s\<rparr>"


section \<open>Reading the effects, and sample inputs\<close>

text \<open>The requests among a list of effects, in the order in which they were issued.\<close>

fun fetches :: "effect list \<Rightarrow> request list" where
  "fetches [] = []"
| "fetches (Fetch r # fx) = r # fetches fx"
| "fetches (e # fx) = fetches fx"


definition notes_txt :: File where
  "notes_txt = \<lparr>File_name = ''notes.txt'', File_type = ''text/plain'', File_size = 120\<rparr>"

definition huge_png :: File where
  "huge_png = \<lparr>File_name = ''huge.png'', File_type = ''image/png'', File_size = 20971520\<rparr>"

definition cat_png :: File where
  "cat_png = \<lparr>File_name = ''cat.png'', File_type = ''image/png'', File_size = 2048\<rparr>"

definition cat_model :: ConvertedModel where
  "cat_model =
     \<lparr>model_url = ''/outputs/cat.glb'', depth_map_url = ''/outputs/cat_depth.png'',
      point_cloud_url = Some ''/outputs/cat.ply'', format = ''glb'',
      original_image_path = None, unique_name = None\<rparr>"

definition env_ok :: upload_env where
  "env_ok = \<lparr>env_previewUrl = ''blob:1'', env_ticks = 3,
             env_convert = Response True (Some cat_model),
             env_summary = Response True (Some ''A cat.'')\<rparr>"

definition env_down :: upload_env where
  "env_down = \<lparr>env_previewUrl = ''blob:1'', env_ticks = 12,
               env_convert = Rejected, env_summary = Rejected\<rparr>"



definition two_drops :: "page_event list" where
  "two_drops = [Drop [cat_png] ''blob:1'', Drop [cat_png] ''blob:2'']"







section \<open>Properties of the upload handler\<close>

lemma valid_iff:
  "validation_error file = None \<longleftrightarrow>
     startsWith (File_type file) ''image/'' \<and> File_size file \<le> 10485760"
  by (auto simp: validation_error_def)

lemmas upload_defs =
  handleImageUpload_def handleImageUpload_start_def
  handleImageUpload_response_def handleImageUpload_json_def handleImageUpload_summary_def
  handleImageUpload_fail_def handleImageUpload_catch_def handleImageUpload_finally_def
  generateSummary_start_def generateSummary_settle_def response_flag_def response_body_def

lemma tick_pow_fields [simp]:
  "generatedModel ((tick ^^ n) s) = generatedModel s"
  "summary ((tick ^^ n) s) = summary s"
  "error ((tick ^^ n) s) = error s"
  by (induction n) (simp_all add: tick_def)

text \<open>
  What the pattern of \<open>removeExtension\<close> takes away: a name that ends in a dot and a
  non-empty extension free of dots and slashes loses exactly that dot and extension.
\<close>

lemma removeExtension_strips:
  assumes "ext \<noteq> []" and "CHR ''.'' \<notin> set ext" and "CHR ''/'' \<notin> set ext"
  shows "removeExtension (base @ ''.'' @ ext) = base"
proof -
  let ?p = "\<lambda>c. c \<noteq> CHR ''.'' \<and> c \<noteq> CHR ''/''"
  have r: "rev (base @ ''.'' @ ext) = rev ext @ CHR ''.'' # rev base"
    by simp
  have all: "\<forall>c \<in> set (rev ext). ?p c"
    using assms by auto
  have t: "takeWhile ?p (rev ext @ CHR ''.'' # rev base) = rev ext"
    using all by (subst takeWhile_append2) auto
  have d: "dropWhile ?p (rev ext @ CHR ''.'' # rev base) = CHR ''.'' # rev base"
    using all by (subst dropWhile_append2) auto
  show ?thesis
    unfolding removeExtension_def Let_def r t d using assms(1) by simp
qed

text \<open>
  Claim C1. A file that passes both validations is sent as the part \<^verbatim>\<open>file\<close> of a
  form-data body in a POST to \<^verbatim>\<open>/api/convert\<close>, which is the first effect of the
  handler; and when the answer is ok and its body reads as a \<^verbatim>\<open>ConvertedModel\<close>
  (\<^verbatim>\<open>model_url\<close>, \<^verbatim>\<open>depth_map_url\<close>, optional \<^verbatim>\<open>point_cloud_url\<close>, ...), that record
  is the generated model when the handler is done.
\<close>

theorem upload_posts_file_and_stores_model:
  assumes "startsWith (File_type file) ''image/''" and "File_size file \<le> 10485760"
  shows "(\<exists>fx. snd (handleImageUpload file env s) =
            Fetch \<lparr>url = ''http://localhost:8000/api/convert'', http_method = ''POST'',
                   headers = [], body = FormData [(''file'', file)]\<rparr> # fx) \<and>
         (\<forall>data. env_convert env = Response True (Some data) \<longrightarrow>
            generatedModel (fst (handleImageUpload file env s)) = Some data)"
proof -
  have v: "validation_error file = None"
    using assms by (simp add: valid_iff)
  show ?thesis
    by (auto simp: v upload_defs convert_request_def Let_def
        split: response.splits option.splits bool.splits prod.splits)
qed

theorem upload_posts_file_and_stores_model_witness:
  "startsWith (File_type cat_png) ''image/'' \<and> File_size cat_png \<le> 10485760 \<and>
   generatedModel (fst (handleImageUpload cat_png env_ok Home_initial)) = Some cat_model"
  using upload_posts_file_and_stores_model [of cat_png env_ok Home_initial]
  by (simp add: cat_png_def env_ok_def startsWith_def)

text \<open>
  Claim C7. For a file that passes validation, the requests of one run of the upload
  handler are the convert call followed by the summary call when the convert call was
  answered ok with a readable body, and the convert call alone otherwise. The body of
  the summary call has \<^verbatim>\<open>image_name\<close> set to the file name without its final
  extension (and \<^verbatim>\<open>image_type\<close> set to \<^verbatim>\<open>general\<close>); when the summary call succeeds
  too, the text it returned is the stored summary.
\<close>

theorem summary_follows_successful_convert:
  assumes "startsWith (File_type file) ''image/''" and "File_size file \<le> 10485760"
  shows
    "fetches (snd (handleImageUpload file env s)) =
       (if \<exists>data. env_convert env = Response True (Some data)
        then [convert_request file,
              \<lparr>url = ''http://localhost:8000/api/generate-summary'', http_method = ''POST'',
               headers = [(''Content-Type'', ''application/json'')],
               body = Json (JObject [(''image_name'', JString (removeExtension (File_name file))),
                                     (''image_type'', JString ''general'')])\<rparr>]
        else [convert_request file]) \<and>
     (\<forall>base ext. File_name file = base @ ''.'' @ ext \<and> ext \<noteq> [] \<and>
          CHR ''.'' \<notin> set ext \<and> CHR ''/'' \<notin> set ext \<longrightarrow>
        removeExtension (File_name file) = base) \<and>
     (\<forall>data text. env_convert env = Response True (Some data) \<and>
          env_summary env = Response True (Some text) \<longrightarrow>
        summary (fst (handleImageUpload file env s)) = text)"
proof -
  have v: "validation_error file = None"
    using assms by (simp add: valid_iff)
  have a: "fetches (snd (handleImageUpload file env s)) =
       (if \<exists>data. env_convert env = Response True (Some data)
        then [convert_request file,
              \<lparr>url = ''http://localhost:8000/api/generate-summary'', http_method = ''POST'',
               headers = [(''Content-Type'', ''application/json'')],
               body = Json (JObject [(''image_name'', JString (removeExtension (File_name file))),
                                     (''image_type'', JString ''general'')])\<rparr>]
        else [convert_request file])"
    by (auto simp: v upload_defs summary_request_def JSON_stringify_def Let_def
        split: response.splits option.splits bool.splits prod.splits)
  have b: "\<forall>base ext. File_name file = base @ ''.'' @ ext \<and> ext \<noteq> [] \<and>
          CHR ''.'' \<notin> set ext \<and> CHR ''/'' \<notin> set ext \<longrightarrow>
        removeExtension (File_name file) = base"
    using removeExtension_strips by metis
  have c: "\<forall>data text. env_convert env = Response True (Some data) \<and>
          env_summary env = Response True (Some text) \<longrightarrow>
        summary (fst (handleImageUpload file env s)) = text"
    by (auto simp: v upload_defs Let_def)
  from a b c show ?thesis by blast
qed

theorem summary_follows_successful_convert_witness:
  "startsWith (File_type cat_png) ''image/'' \<and> File_size cat_png \<le> 10485760 \<and>
   map url (fetches (snd (handleImageUpload cat_png env_ok Home_initial))) =
     [''http://localhost:8000/api/convert'', ''http://localhost:8000/api/generate-summary''] \<and>
   map url (fetches (snd (handleImageUpload cat_png env_down Home_initial))) =
     [''http://localhost:8000/api/convert''] \<and>
   removeExtension (File_name cat_png) = ''cat'' \<and>
   summary (fst (handleImageUpload cat_png env_ok Home_initial)) = ''A cat.''"
  using summary_follows_successful_convert [of cat_png env_ok Home_initial]
    summary_follows_successful_convert [of cat_png env_down Home_initial]
  by (simp add: cat_png_def env_ok_def env_down_def startsWith_def convert_request_def
      removeExtension_def)

text \<open>
  Claim C8. A file whose MIME type does not start with \<^verbatim>\<open>image/\<close>, or whose size is
  above 10485760 bytes, makes \<^verbatim>\<open>handleImageUpload\<close> set the validation message of the
  first check that fails and return: no request is issued, and apart from \<^verbatim>\<open>error\<close>
  every state variable of the page keeps its value.
\<close>

theorem invalid_file_sets_error_only:
  "\<not> startsWith (File_type file) ''image/'' \<or> File_size file > 10485760 \<Longrightarrow>
   handleImageUpload file env s =
     (s\<lparr>error := (if \<not> startsWith (File_type file) ''image/''
                   then ''Please upload a valid image file''
                   else ''File size must be less than 10MB'')\<rparr>, [])"
  by (auto simp: handleImageUpload_def handleImageUpload_start_def validation_error_def)

theorem invalid_file_sets_error_only_witness:
  "\<not> startsWith (File_type notes_txt) ''image/'' \<and>
   handleImageUpload notes_txt env_ok Home_initial =
     (Home_initial\<lparr>error := ''Please upload a valid image file''\<rparr>, []) \<and>
   startsWith (File_type huge_png) ''image/'' \<and> File_size huge_png > 10485760 \<and>
   handleImageUpload huge_png env_ok Home_initial =
     (Home_initial\<lparr>error := ''File size must be less than 10MB''\<rparr>, [])"
  using invalid_file_sets_error_only [of notes_txt env_ok Home_initial]
    invalid_file_sets_error_only [of huge_png env_ok Home_initial]
  by (simp add: notes_txt_def huge_png_def startsWith_def)

section \<open>Failures\<close>




section \<open>The chat panel over time\<close>

lemma chat_run_snoc: "chat_run C (evs @ [e]) = chat_step (chat_run C evs) e"
  by (simp add: chat_run_def)

lemma remove_nth_filter_length:
  assumes "i < length xs"
  shows "length (filter P xs) =
         length (filter P (remove_nth i xs)) + (if P (xs ! i) then 1 else 0)"
proof -
  have "filter P xs = filter P (take i xs @ xs ! i # drop (Suc i) xs)"
    using id_take_nth_drop [OF assms] by (rule arg_cong)
  also have "\<dots> = filter P (take i xs) @ filter P [xs ! i] @ filter P (drop (Suc i) xs)"
    by simp
  finally have "length (filter P xs) =
      length (filter P (take i xs)) + length (filter P [xs ! i]) +
      length (filter P (drop (Suc i) xs))"
    by simp
  then show ?thesis
    by (simp add: remove_nth_def)
qed

lemma set_remove_nth: "x \<in> set (remove_nth i xs) \<Longrightarrow> x \<in> set xs"
  by (auto simp: remove_nth_def dest: in_set_takeD in_set_dropD)

lemma exported_summaries_append:
  "exported_summaries (xs @ ys) = exported_summaries xs @ exported_summaries ys"
  by (induction xs rule: exported_summaries.induct) simp_all

lemma exported_summaries_export:
  "exported_summaries [Fetch (export_request p c)] = [JString (prop_summary p)]"
  by (simp add: export_request_def JSON_stringify_def)

lemma exported_summaries_chat:
  "exported_summaries [Fetch (chat_request n ms u)] = []"
  by (simp add: chat_request_def)

text \<open>What each event does to the four parts of a mounted panel.\<close>

lemma send_idle:
  "trim (inputMessage (panel C)) = [] \<or> isLoading (panel C) \<Longrightarrow> send C = C"
  by (auto simp: send_def handleSendMessage_start_def)

lemma send_sends:
  assumes "trim (inputMessage (panel C)) \<noteq> []" and "\<not> isLoading (panel C)"
  shows "send C =
     C\<lparr>panel := (panel C)\<lparr>inputMessage := [],
            messages := messages (panel C) @ [\<lparr>role = User, content = trim (inputMessage (panel C))\<rparr>],
            isLoading := True\<rparr>,
        chat_effects := chat_effects C @
          [Fetch (chat_request (prop_imageName (props C))
             (messages (panel C) @ [\<lparr>role = User, content = trim (inputMessage (panel C))\<rparr>])
             (trim (inputMessage (panel C))))],
        requests := requests C @
          [AwaitChat (messages (panel C) @ [\<lparr>role = User, content = trim (inputMessage (panel C))\<rparr>])]\<rparr>"
  using assms by (simp add: send_def handleSendMessage_start_def Let_def)

lemma handleSendMessage_settle_shape:
  "\<exists>reply fx. exported_summaries fx = [] \<and>
     handleSendMessage_settle ms r c =
       (c\<lparr>messages := ms @ [\<lparr>role = Assistant, content = reply\<rparr>], isLoading := False\<rparr>, fx)"
proof (cases "\<exists>data. r = Response True (Some data)")
  case True
  then obtain data where "r = Response True (Some data)" by blast
  then have "handleSendMessage_settle ms r c =
       (c\<lparr>messages := ms @ [\<lparr>role = Assistant, content = response data\<rparr>], isLoading := False\<rparr>, [])"
    by (simp add: handleSendMessage_settle_def)
  then show ?thesis by (metis exported_summaries.simps(1))
next
  case False
  then have "handleSendMessage_settle ms r c =
       (c\<lparr>messages := ms @ [\<lparr>role = Assistant,
              content = ''Sorry, I encountered an error. Please try again.''\<rparr>],
          isLoading := False\<rparr>, [ConsoleError ''Chat error:''])"
    by (auto simp: handleSendMessage_settle_def split: response.splits option.splits bool.splits)
  moreover have "exported_summaries [ConsoleError ''Chat error:''] = []" by simp
  ultimately show ?thesis by metis
qed

lemma handleExportReport_settle_shape:
  "\<exists>fx. exported_summaries fx = [] \<and>
     handleExportReport_settle name r c = (c\<lparr>isExporting := False\<rparr>, fx)"
proof (cases "\<exists>blob. r = Response True (Some blob)")
  case True
  then obtain blob where "r = Response True (Some blob)" by blast
  then have "handleExportReport_settle name r c =
       (c\<lparr>isExporting := False\<rparr>,
        [Download blob (''learning_report_'' @ replaceWhitespace name @ ''.pdf'')])"
    by (simp add: handleExportReport_settle_def)
  moreover have "exported_summaries
       [Download blob (''learning_report_'' @ replaceWhitespace name @ ''.pdf'')] = []"
    by simp
  ultimately show ?thesis by metis
next
  case False
  then have "handleExportReport_settle name r c =
       (c\<lparr>isExporting := False\<rparr>,
        [ConsoleError ''Export error:'', Alert ''Failed to export report. Please try again.''])"
    by (auto simp: handleExportReport_settle_def split: response.splits option.splits bool.splits)
  moreover have "exported_summaries
       [ConsoleError ''Export error:'', Alert ''Failed to export report. Please try again.''] = []"
    by simp
  ultimately show ?thesis by metis
qed


lemma click_export:
  "chat_step C ClickExport =
     (if isExporting (panel C) \<or> prop_summary (props C) = [] then C
      else C\<lparr>panel := (panel C)\<lparr>isExporting := True\<rparr>,
             chat_effects := chat_effects C @ [Fetch (export_request (props C) (panel C))],
             requests := requests C @ [AwaitExport (prop_imageName (props C))]\<rparr>)"
  by (simp only: chat_step.simps export_disabled_def handleExportReport_start_def Let_def split_conv)

lemma chat_settles:
  assumes "i < length (requests C)" and "requests C ! i = AwaitChat ms"
  shows "\<exists>reply fx. exported_summaries fx = [] \<and>
     chat_step C (ChatSettles i r) =
       C\<lparr>panel := (panel C)\<lparr>messages := ms @ [\<lparr>role = Assistant, content = reply\<rparr>],
                             isLoading := False\<rparr>,
         chat_effects := chat_effects C @ fx,
         requests := remove_nth i (requests C)\<rparr>"
proof -
  obtain reply fx where fx: "exported_summaries fx = []"
    and s: "handleSendMessage_settle ms r (panel C) =
       ((panel C)\<lparr>messages := ms @ [\<lparr>role = Assistant, content = reply\<rparr>], isLoading := False\<rparr>, fx)"
    using handleSendMessage_settle_shape by blast
  have "chat_step C (ChatSettles i r) =
       C\<lparr>panel := (panel C)\<lparr>messages := ms @ [\<lparr>role = Assistant, content = reply\<rparr>],
                             isLoading := False\<rparr>,
         chat_effects := chat_effects C @ fx,
         requests := remove_nth i (requests C)\<rparr>"
    using assms by (simp only: chat_step.simps if_True chat_pending.case s Let_def split_conv)
  with fx show ?thesis by blast
qed

lemma export_settles:
  assumes "i < length (requests C)" and "requests C ! i = AwaitExport name"
  shows "\<exists>fx. exported_summaries fx = [] \<and>
     chat_step C (ExportSettles i r) =
       C\<lparr>panel := (panel C)\<lparr>isExporting := False\<rparr>,
         chat_effects := chat_effects C @ fx,
         requests := remove_nth i (requests C)\<rparr>"
proof -
  obtain fx where fx: "exported_summaries fx = []"
    and s: "handleExportReport_settle name r (panel C) = ((panel C)\<lparr>isExporting := False\<rparr>, fx)"
    using handleExportReport_settle_shape by blast
  have "chat_step C (ExportSettles i r) =
       C\<lparr>panel := (panel C)\<lparr>isExporting := False\<rparr>,
         chat_effects := chat_effects C @ fx,
         requests := remove_nth i (requests C)\<rparr>"
    using assms by (simp only: chat_step.simps if_True chat_pending.case s Let_def split_conv)
  with fx show ?thesis by blast
qed

lemma settles_other:
  "\<not> i < length (requests C) \<Longrightarrow> chat_step C (ChatSettles i r) = C"
  "\<not> i < length (requests C) \<Longrightarrow> chat_step C (ExportSettles i x) = C"
  "requests C ! i = AwaitExport name \<Longrightarrow> chat_step C (ChatSettles i r) = C"
  "requests C ! i = AwaitChat ms \<Longrightarrow> chat_step C (ExportSettles i x) = C"
  by simp_all


lemma chat_inv_mounted: "chat_inv (Chat_mounted p)"
  by (simp add: chat_inv_def Chat_mounted_def ChatPanel_initial_def
      exports_in_flight_def chats_in_flight_def)

lemma no_chat_pending:
  assumes "chats_in_flight C = 0"
  shows "AwaitChat ms \<notin> set (requests C)"
proof
  assume "AwaitChat ms \<in> set (requests C)"
  then have "AwaitChat ms \<in> set (filter (\<lambda>q. \<not> is_export q) (requests C))"
    by simp
  with assms show False
    by (simp add: chats_in_flight_def)
qed

lemma chat_inv_send:
  assumes "chat_inv C"
  shows "chat_inv (send C)"
proof (cases "trim (inputMessage (panel C)) = [] \<or> isLoading (panel C)")
  case True
  then show ?thesis using assms by (simp add: send_idle)
next
  case False
  then have idle: "\<not> isLoading (panel C)" and nonempty: "trim (inputMessage (panel C)) \<noteq> []"
    by simp_all
  from assms idle have zero: "chats_in_flight C = 0"
    by (simp add: chat_inv_def)
  have none: "\<And>ms. AwaitChat ms \<notin> set (requests C)"
    using zero by (rule no_chat_pending)
  from assms have e: "exports_in_flight C = (if isExporting (panel C) then 1 else 0)"
    and d: "\<forall>j \<in> set (exported_summaries (chat_effects C)). \<exists>t. j = JString t \<and> t \<noteq> []"
    by (simp_all add: chat_inv_def)
  show ?thesis
    unfolding send_sends [OF nonempty idle] chat_inv_def
    using zero none e d
    by (simp add: exports_in_flight_def chats_in_flight_def exported_summaries_append
        exported_summaries_chat del: exported_summaries.simps)
qed

lemma chat_inv_click_export:
  assumes "chat_inv C"
  shows "chat_inv (chat_step C ClickExport)"
proof (cases "isExporting (panel C) \<or> prop_summary (props C) = []")
  case True
  then show ?thesis using assms by (simp only: click_export if_True)
next
  case False
  then have idle: "\<not> isExporting (panel C)" and nonempty: "prop_summary (props C) \<noteq> []"
    by simp_all
  from assms idle have zero: "exports_in_flight C = 0"
    by (simp add: chat_inv_def)
  from assms have b: "chats_in_flight C = (if isLoading (panel C) then 1 else 0)"
    and c: "\<forall>ms. AwaitChat ms \<in> set (requests C) \<longrightarrow> ms = messages (panel C)"
    and d: "\<forall>j \<in> set (exported_summaries (chat_effects C)). \<exists>t. j = JString t \<and> t \<noteq> []"
    by (simp_all add: chat_inv_def)
  have step: "chat_step C ClickExport =
      C\<lparr>panel := (panel C)\<lparr>isExporting := True\<rparr>,
        chat_effects := chat_effects C @ [Fetch (export_request (props C) (panel C))],
        requests := requests C @ [AwaitExport (prop_imageName (props C))]\<rparr>"
    using False by (simp only: click_export if_False)
  show ?thesis
    unfolding step chat_inv_def
    using zero b c d nonempty
    by (simp add: exports_in_flight_def chats_in_flight_def exported_summaries_append
        exported_summaries_export del: exported_summaries.simps)
qed

lemma chat_inv_chat_settles:
  assumes "chat_inv C"
  shows "chat_inv (chat_step C (ChatSettles i r))"
proof (cases "i < length (requests C)")
  case False
  with assms show ?thesis by simp
next
  case True
  show ?thesis
  proof (cases "requests C ! i")
    case (AwaitExport name)
    with assms show ?thesis by simp
  next
    case (AwaitChat ms)
    have mem: "AwaitChat ms \<in> set (requests C)"
      using True AwaitChat by (metis nth_mem)
    have "chats_in_flight C \<noteq> 0"
      using mem no_chat_pending by blast
    with assms have one: "chats_in_flight C = 1"
      by (simp add: chat_inv_def split: if_splits)
    from remove_nth_filter_length [OF True, of "\<lambda>q. \<not> is_export q"] one AwaitChat
    have zero: "length (filter (\<lambda>q. \<not> is_export q) (remove_nth i (requests C))) = 0"
      by (simp add: chats_in_flight_def)
    from remove_nth_filter_length [OF True, of is_export] AwaitChat
    have same: "length (filter is_export (remove_nth i (requests C))) = exports_in_flight C"
      by (simp add: exports_in_flight_def)
    have none: "\<And>ms'. AwaitChat ms' \<notin> set (remove_nth i (requests C))"
    proof
      fix ms'
      assume "AwaitChat ms' \<in> set (remove_nth i (requests C))"
      then have "AwaitChat ms' \<in> set (filter (\<lambda>q. \<not> is_export q) (remove_nth i (requests C)))"
        by simp
      with zero show False by simp
    qed
    from assms have e: "exports_in_flight C = (if isExporting (panel C) then 1 else 0)"
      and d: "\<forall>j \<in> set (exported_summaries (chat_effects C)). \<exists>t. j = JString t \<and> t \<noteq> []"
      by (simp_all add: chat_inv_def)
    obtain reply fx where fx: "exported_summaries fx = []"
      and step: "chat_step C (ChatSettles i r) =
        C\<lparr>panel := (panel C)\<lparr>messages := ms @ [\<lparr>role = Assistant, content = reply\<rparr>],
                              isLoading := False\<rparr>,
          chat_effects := chat_effects C @ fx,
          requests := remove_nth i (requests C)\<rparr>"
      using chat_settles [OF True AwaitChat] by blast
    show ?thesis
      unfolding step chat_inv_def
      using zero same none e d fx
      by (simp add: exports_in_flight_def chats_in_flight_def exported_summaries_append)
  qed
qed

lemma chat_inv_export_settles:
  assumes "chat_inv C"
  shows "chat_inv (chat_step C (ExportSettles i r))"
proof (cases "i < length (requests C)")
  case False
  with assms show ?thesis by simp
next
  case True
  show ?thesis
  proof (cases "requests C ! i")
    case (AwaitChat ms)
    with assms show ?thesis by simp
  next
    case (AwaitExport name)
    have "AwaitExport name \<in> set (requests C)"
      using True AwaitExport by (metis nth_mem)
    then have mem: "AwaitExport name \<in> set (filter is_export (requests C))"
      by simp
    then have "filter is_export (requests C) \<noteq> []"
      by (metis empty_iff list.set(1))
    then have "exports_in_flight C \<noteq> 0"
      by (simp add: exports_in_flight_def)
    with assms have one: "exports_in_flight C = 1"
      by (simp add: chat_inv_def split: if_splits)
    from remove_nth_filter_length [OF True, of is_export] one AwaitExport
    have zero: "length (filter is_export (remove_nth i (requests C))) = 0"
      by (simp add: exports_in_flight_def)
    from remove_nth_filter_length [OF True, of "\<lambda>q. \<not> is_export q"] AwaitExport
    have same: "length (filter (\<lambda>q. \<not> is_export q) (remove_nth i (requests C))) = chats_in_flight C"
      by (simp add: chats_in_flight_def)
    from assms have b: "chats_in_flight C = (if isLoading (panel C) then 1 else 0)"
      and c: "\<forall>ms. AwaitChat ms \<in> set (requests C) \<longrightarrow> ms = messages (panel C)"
      and d: "\<forall>j \<in> set (exported_summaries (chat_effects C)). \<exists>t. j = JString t \<and> t \<noteq> []"
      by (simp_all add: chat_inv_def)
    have c': "\<forall>ms. AwaitChat ms \<in> set (remove_nth i (requests C)) \<longrightarrow> ms = messages (panel C)"
      using c set_remove_nth by fast
    obtain fx where fx: "exported_summaries fx = []"
      and step: "chat_step C (ExportSettles i r) =
        C\<lparr>panel := (panel C)\<lparr>isExporting := False\<rparr>,
          chat_effects := chat_effects C @ fx,
          requests := remove_nth i (requests C)\<rparr>"
      using export_settles [OF True AwaitExport] by blast
    show ?thesis
      unfolding step chat_inv_def
      using zero same b c' d fx
      by (simp add: exports_in_flight_def chats_in_flight_def exported_summaries_append)
  qed
qed

lemma chat_inv_step:
  assumes "chat_inv C"
  shows "chat_inv (chat_step C e)"
proof (cases e)
  case (ChangeInput v)
  from assms show ?thesis unfolding ChangeInput
    by (auto simp: chat_inv_def exports_in_flight_def chats_in_flight_def split: if_splits)
next
  case (KeyPress key shiftKey)
  from assms show ?thesis unfolding KeyPress by (simp add: chat_inv_send)
next
  case ClickSend
  from assms show ?thesis unfolding ClickSend by (simp add: chat_inv_send)
next
  case ClickExport
  from assms show ?thesis unfolding ClickExport by (rule chat_inv_click_export)
next
  case (ChatSettles i r)
  from assms show ?thesis unfolding ChatSettles by (rule chat_inv_chat_settles)
next
  case (ExportSettles i r)
  from assms show ?thesis unfolding ExportSettles by (rule chat_inv_export_settles)
next
  case (Render p)
  from assms show ?thesis unfolding Render
    by (auto simp: chat_inv_def exports_in_flight_def chats_in_flight_def split: if_splits)
qed

lemma chat_inv_run: "chat_inv (chat_run (Chat_mounted p) evs)"
proof (induction evs rule: rev_induct)
  case Nil
  show ?case by (simp add: chat_run_def chat_inv_mounted)
next
  case (snoc e evs)
  then show ?case by (simp add: chat_run_snoc chat_inv_step)
qed






section \<open>The page over time\<close>


text \<open>The upload progress and the metadata after each part of the upload handler.\<close>

lemma start_progress:
  "uploadProgress (fst (handleImageUpload_start file u s)) =
     (if validation_error file = None then 0 else uploadProgress s)"
  by (simp add: handleImageUpload_start_def split: option.split)




lemma start_metadata:
  "imageMetadata (fst (handleImageUpload_start file u s)) = imageMetadata s"
  by (simp add: handleImageUpload_start_def split: option.split)




text \<open>The same for the steps of the page.\<close>

lemma start_upload_parts:
  "uploadProgress (home (start_upload f u P)) =
     (if validation_error f = None then 0 else uploadProgress (home P))"
  "uploads (start_upload f u P) =
     (if validation_error f = None then uploads P @ [AwaitConvert f (intervalsMade P)]
      else uploads P)"
  "imageMetadata (home (start_upload f u P)) = imageMetadata (home P)"
  using start_progress [of f u "home P"] start_metadata [of f u "home P"]
  by (auto simp: start_upload_def split_beta Let_def)


lemma drop_parts:
  "uploadProgress (home (page_step P (Drop files u))) \<in> {0, uploadProgress (home P)}"
  "uploadProgress (home (page_step P (Drop files u))) = uploadProgress (home P) \<longrightarrow>
     (\<forall>q \<in> set (uploads P). q \<in> set (uploads (page_step P (Drop files u))))"
  "imageMetadata (home (page_step P (Drop files u))) = imageMetadata (home P)"
  by (auto simp: start_upload_parts Let_def split: list.split)

lemma choose_parts:
  "uploadProgress (home (page_step P (ChooseFile files u))) \<in> {0, uploadProgress (home P)}"
  "uploadProgress (home (page_step P (ChooseFile files u))) = uploadProgress (home P) \<longrightarrow>
     (\<forall>q \<in> set (uploads P). q \<in> set (uploads (page_step P (ChooseFile files u))))"
  "imageMetadata (home (page_step P (ChooseFile files u))) = imageMetadata (home P)"
  by (auto simp: start_upload_parts Let_def split: list.split)






















section \<open>Chat and export\<close>



lemma chat_single_in_flight: "chats_in_flight (chat_run (Chat_mounted p) evs) \<le> 1"
  using chat_inv_run [of p evs] by (simp add: chat_inv_def)





section \<open>A second upload beside the first\<close>

text \<open>
  Claim C6 at the drop zone. After a first valid image has been dropped, a model is
  being generated and one convert call is in flight. Choosing a file in the file
  dialog now does nothing; dropping a second image starts a second convert call beside
  the first.
\<close>

theorem second_drop_starts_second_convert:
  "isGeneratingModel (home (page_run Page_initial [Drop [cat_png] ''blob:1''])) \<and>
   converts_in_flight (page_run Page_initial [Drop [cat_png] ''blob:1'']) = 1 \<and>
   uploads (page_step (page_run Page_initial [Drop [cat_png] ''blob:1''])
      (ChooseFile [cat_png] ''blob:2'')) = [AwaitConvert cat_png 0] \<and>
   converts_in_flight (page_run Page_initial two_drops) = 2 \<and>
   uploads (page_run Page_initial two_drops) = [AwaitConvert cat_png 0, AwaitConvert cat_png 1] \<and>
   fetches (effects (page_run Page_initial two_drops)) =
     [convert_request cat_png, convert_request cat_png]"
  by (simp add: two_drops_def page_run_def Page_initial_def Home_initial_def start_upload_def
      handleImageUpload_start_def validation_error_def startsWith_def cat_png_def
      converts_in_flight_def Let_def)

section \<open>The point cloud of the viewer\<close>












end
